theory Spec2Isabelle
  imports Complex_Main "HOL-Library.Word" "HOL-Library.Log_Nat"
begin

section \<open>Water hyacinth dashboard (app.py): raster classifier, bounds, table validation\<close>

text \<open>
  The development embeds the script \<^verbatim>\<open>app.py\<close>: the optional imports and the
  module-level definitions, \<^verbatim>\<open>load_data\<close>, \<^verbatim>\<open>validate_columns\<close>,
  \<^verbatim>\<open>raster_bounds_4326\<close>, \<^verbatim>\<open>classify_raster_to_rgba\<close>, \<^verbatim>\<open>build_raster_map\<close> and
  the Map View branch. The libraries the script calls (rasterio, numpy, pandas, folium,
  streamlit) are not part of the repository: what the script observes of them is made
  explicit as data (which imports succeed, the files on disk, what a dataset object
  answers, what \<^verbatim>\<open>pd.read_csv\<close> returned) or as a parameter
  (\<^verbatim>\<open>transform_bounds\<close>, \<^verbatim>\<open>pd.to_numeric\<close>).
\<close>

subsection \<open>Exceptions\<close>

datatype error =
    RasterioIOError      \<comment> \<open>\<^verbatim>\<open>rasterio.open\<close> cannot open or decode the file\<close>
  | IndexError           \<comment> \<open>\<^verbatim>\<open>src.read(1)\<close> on a dataset without band 1\<close>
  | CRSError             \<comment> \<open>raised by the reprojection library\<close>
  | ValueError           \<comment> \<open>tuple unpacking of a wrongly shaped value\<close>
  | FileNotFoundError    \<comment> \<open>\<^verbatim>\<open>pd.read_csv\<close> on a missing file\<close>
  | EmptyDataError       \<comment> \<open>\<^verbatim>\<open>pd.read_csv\<close> on an empty file\<close>
  | UnicodeDecodeError   \<comment> \<open>\<^verbatim>\<open>pd.read_csv\<close> on bytes that are not UTF-8\<close>
  | ParserError          \<comment> \<open>\<^verbatim>\<open>pd.read_csv\<close> on rows it cannot tokenise\<close>
  | TypeError            \<comment> \<open>\<^verbatim>\<open>pd.to_numeric\<close> on a DataFrame\<close>
  | NameError            \<comment> \<open>a name that no import has bound\<close>

subsection \<open>Numbers and binary floating point\<close>

text \<open>
  A numeric value as the libraries hand it over: not-a-number, an infinity, or a finite
  number, represented by the real it denotes (an integer of the file, a binary64, a
  binary32; the two signed zeros compare equal and are one value here).
\<close>

datatype number = NaN | NegInf | PosInf | Fin real

text \<open>
  Rounding a real to the nearest value of a binary format with \<open>p\<close> significand bits and
  normal exponents \<open>emin .. emax\<close>, ties to the even significand, overflow to the
  infinity, gradual underflow. \<open>ilog2 x\<close> is the floor of the binary logarithm of a
  positive \<open>x\<close>.
\<close>

definition pow2 :: "int \<Rightarrow> real" where
  "pow2 k = (if 0 \<le> k then 2 ^ nat k else 1 / 2 ^ nat (- k))"

definition ilog2 :: "real \<Rightarrow> int" where
  "ilog2 x = (if 1 \<le> x then bitlen \<lfloor>x\<rfloor> - 1 else - bitlen (\<lceil>1 / x\<rceil> - 1))"

definition round_half_even :: "real \<Rightarrow> int" where
  "round_half_even x =
     (let f = \<lfloor>x\<rfloor>; d = x - of_int f
      in if d < 1 / 2 then f else if 1 / 2 < d then f + 1 else if even f then f else f + 1)"

definition round_binary :: "nat \<Rightarrow> int \<Rightarrow> int \<Rightarrow> real \<Rightarrow> number" where
  "round_binary p emin emax x =
     (if x = 0 then Fin 0
      else
        let a = \<bar>x\<bar>;
            e = max (ilog2 a) emin;
            ulp = pow2 (e - (int p - 1));
            r = of_int (round_half_even (a / ulp)) * ulp
        in if pow2 (emax + 1) \<le> r then (if 0 < x then PosInf else NegInf)
           else Fin (if 0 < x then r else - r))"

definition round_f32 :: "real \<Rightarrow> number" where
  "round_f32 = round_binary 24 (- 126) 127"

definition round_f64 :: "real \<Rightarrow> number" where
  "round_f64 = round_binary 53 (- 1022) 1023"

text \<open>\<^verbatim>\<open>astype("float32")\<close> on one value, and the conversion of a scalar to float32.\<close>

fun astype_f32 :: "number \<Rightarrow> number" where
  "astype_f32 (Fin x) = round_f32 x"
| "astype_f32 v = v"

text \<open>Python float arithmetic (binary64): the sum of two floats and a float halved.\<close>

fun f64_add :: "number \<Rightarrow> number \<Rightarrow> number" where
  "f64_add NaN _ = NaN"
| "f64_add _ NaN = NaN"
| "f64_add PosInf NegInf = NaN"
| "f64_add NegInf PosInf = NaN"
| "f64_add PosInf _ = PosInf"
| "f64_add _ PosInf = PosInf"
| "f64_add NegInf _ = NegInf"
| "f64_add _ NegInf = NegInf"
| "f64_add (Fin a) (Fin b) = round_f64 (a + b)"

fun f64_div2 :: "number \<Rightarrow> number" where
  "f64_div2 (Fin a) = round_f64 (a / 2)"
| "f64_div2 v = v"

text \<open>IEEE comparisons: a comparison with NaN on either side is false, as in numpy.\<close>

fun np_isnan :: "number \<Rightarrow> bool" where
  "np_isnan NaN = True"
| "np_isnan _ = False"

fun f32_eq :: "number \<Rightarrow> number \<Rightarrow> bool" where
  "f32_eq NaN _ = False"
| "f32_eq _ NaN = False"
| "f32_eq x y = (x = y)"

fun f32_le :: "number \<Rightarrow> number \<Rightarrow> bool" where
  "f32_le NaN _ = False"
| "f32_le _ NaN = False"
| "f32_le NegInf _ = True"
| "f32_le _ PosInf = True"
| "f32_le (Fin x) (Fin y) = (x \<le> y)"
| "f32_le _ _ = False"

fun f32_gt :: "number \<Rightarrow> number \<Rightarrow> bool" where
  "f32_gt NaN _ = False"
| "f32_gt _ NaN = False"
| "f32_gt x y = (\<not> f32_le x y)"

subsection \<open>Two-dimensional arrays and the numpy operations used\<close>

type_synonym 'a array2 = "'a list list"

definition shape :: "'a array2 \<Rightarrow> nat \<times> nat" where
  "shape a = (length a, case a of [] \<Rightarrow> 0 | r # _ \<Rightarrow> length r)"

text \<open>A numpy array is rectangular: every row has the width the shape reports.\<close>

definition rectangular :: "'a array2 \<Rightarrow> bool" where
  "rectangular a = list_all (\<lambda>r. length r = snd (shape a)) a"

definition elementwise :: "('a \<Rightarrow> 'b) \<Rightarrow> 'a array2 \<Rightarrow> 'b array2" where
  "elementwise f a = map (map f) a"

definition elementwise2 :: "('a \<Rightarrow> 'b \<Rightarrow> 'c) \<Rightarrow> 'a array2 \<Rightarrow> 'b array2 \<Rightarrow> 'c array2" where
  "elementwise2 f a b = map2 (map2 f) a b"

definition np_or :: "bool array2 \<Rightarrow> bool array2 \<Rightarrow> bool array2" where
  "np_or = elementwise2 (\<or>)"

definition np_and :: "bool array2 \<Rightarrow> bool array2 \<Rightarrow> bool array2" where
  "np_and = elementwise2 (\<and>)"

definition np_invert :: "bool array2 \<Rightarrow> bool array2" where
  "np_invert = elementwise Not"

text \<open>
  \<^verbatim>\<open>band == nodata\<close> for a float32 array and a Python float: numpy converts the scalar
  to the array's type and compares in float32.
\<close>

definition np_equal_scalar :: "number array2 \<Rightarrow> number \<Rightarrow> bool array2" where
  "np_equal_scalar band s = elementwise (\<lambda>x. f32_eq x (astype_f32 s)) band"

type_synonym rgba = "8 word \<times> 8 word \<times> 8 word \<times> 8 word"

definition np_zeros :: "nat \<Rightarrow> nat \<Rightarrow> rgba array2" where
  "np_zeros h w = replicate h (replicate w (0, 0, 0, 0))"

text \<open>\<^verbatim>\<open>a[mask] = colour\<close>: the pixels under a true mask entry take the colour.\<close>

definition mask_assign :: "rgba array2 \<Rightarrow> bool array2 \<Rightarrow> rgba \<Rightarrow> rgba array2" where
  "mask_assign a msk colour = elementwise2 (\<lambda>m p. if m then colour else p) msk a"

subsection \<open>Raster datasets and the files on disk\<close>

text \<open>
  Of a coordinate reference system object the script observes its truth value and its
  string form; CRS strings are ASCII byte strings. The bands of a dataset hold the values
  of the file in the file's own type, \<open>nodata\<close> is the Python float \<^verbatim>\<open>src.nodata\<close>.
\<close>

record crs_obj =
  crs_bool :: bool
  crs_str :: string

record bounding_box =
  b_left :: real
  b_bottom :: real
  b_right :: real
  b_top :: real

record dataset =
  bounds :: bounding_box
  crs :: "crs_obj option"
  nodata :: "number option"
  bands :: "number array2 list"

type_synonym files = "string \<Rightarrow> dataset option"

definition rasterio_open :: "files \<Rightarrow> string \<Rightarrow> error + dataset" where
  "rasterio_open fs path = (case fs path of None \<Rightarrow> Inl RasterioIOError | Some d \<Rightarrow> Inr d)"

text \<open>\<^verbatim>\<open>src.read(i)\<close>: band indexes start at 1.\<close>

definition read_band :: "dataset \<Rightarrow> nat \<Rightarrow> error + number array2" where
  "read_band src i =
     (if 1 \<le> i \<and> i \<le> length (bands src) then Inr (bands src ! (i - 1)) else Inl IndexError)"

text \<open>
  \<^verbatim>\<open>rasterio.warp.transform_bounds(src_crs, dst_crs, left, bottom, right, top)\<close> is a
  library function: it is a parameter of every definition that calls it.
\<close>

type_synonym warp =
  "crs_obj \<Rightarrow> string \<Rightarrow> real \<Rightarrow> real \<Rightarrow> real \<Rightarrow> real \<Rightarrow> error + (real \<times> real \<times> real \<times> real)"

subsection \<open>String helpers\<close>

definition upper_char :: "char \<Rightarrow> char" where
  "upper_char c =
     (let n = (of_char c :: nat) in if 97 \<le> n \<and> n \<le> 122 then char_of (n - 32) else c)"

definition upper :: "string \<Rightarrow> string" where
  "upper s = map upper_char s"

text \<open>
  A column label is a Python string: a list of Unicode code points. \<^verbatim>\<open>str.strip()\<close>
  removes from both ends the code points for which \<^verbatim>\<open>str.isspace\<close> holds.
\<close>

type_synonym label = "nat list"

definition label_of :: "string \<Rightarrow> label" where
  "label_of s = map of_char s"

definition py_isspace :: "nat \<Rightarrow> bool" where
  "py_isspace c =
     ((9 \<le> c \<and> c \<le> 13) \<or> (28 \<le> c \<and> c \<le> 32) \<or> c = 133 \<or> c = 160 \<or> c = 5760
      \<or> (8192 \<le> c \<and> c \<le> 8202) \<or> c = 8232 \<or> c = 8233 \<or> c = 8239 \<or> c = 8287
      \<or> c = 12288)"

definition strip :: "label \<Rightarrow> label" where
  "strip s = rev (dropWhile py_isspace (rev (dropWhile py_isspace s)))"

subsection \<open>raster_bounds_4326\<close>

text \<open>
  The extent \<^verbatim>\<open>(west, south, east, north)\<close> the function computes inside the
  \<^verbatim>\<open>with\<close> block: reprojected when the CRS object is truthy and its upper-cased string
  form is not \<^verbatim>\<open>"EPSG:4326"\<close>, the native bounds otherwise.
\<close>

definition extent_4326 :: "warp \<Rightarrow> dataset \<Rightarrow> error + (real \<times> real \<times> real \<times> real)" where
  "extent_4326 transform_bounds src =
     (let b = bounds src;
          src_crs = crs src;
          native = Inr (b_left b, b_bottom b, b_right b, b_top b)
      in case src_crs of
           None \<Rightarrow> native
         | Some c \<Rightarrow>
             if crs_bool c \<and> upper (crs_str c) \<noteq> ''EPSG:4326''
             then transform_bounds c ''EPSG:4326'' (b_left b) (b_bottom b) (b_right b) (b_top b)
             else native)"

definition raster_bounds_4326 :: "warp \<Rightarrow> files \<Rightarrow> string \<Rightarrow> error + real list list" where
  "raster_bounds_4326 transform_bounds fs tif_path =
     (case rasterio_open fs tif_path of
        Inl e \<Rightarrow> Inl e
      | Inr src \<Rightarrow>
          (case extent_4326 transform_bounds src of
             Inl e \<Rightarrow> Inl e
           | Inr (west, south, east, north) \<Rightarrow> Inr [[south, west], [north, east]]))"

subsection \<open>classify_raster_to_rgba\<close>

text \<open>The masks are built on the band after its conversion to float32.\<close>

definition is_nodata :: "number option \<Rightarrow> number array2 \<Rightarrow> bool array2" where
  "is_nodata nd band =
     (case nd of
        Some s \<Rightarrow> np_or (np_equal_scalar band s) (elementwise np_isnan band)
      | None \<Rightarrow> elementwise np_isnan band)"

definition is_background :: "number option \<Rightarrow> number array2 \<Rightarrow> bool array2" where
  "is_background nd band = np_or (is_nodata nd band) (elementwise (\<lambda>x. f32_le x (Fin 0)) band)"

definition is_hyacinth :: "number option \<Rightarrow> number array2 \<Rightarrow> bool array2" where
  "is_hyacinth nd band =
     np_and (np_invert (is_nodata nd band)) (elementwise (\<lambda>x. f32_gt x (Fin 0)) band)"

definition blue :: rgba where
  "blue = (0, 120, 255, 180)"

definition green :: rgba where
  "green = (0, 200, 0, 220)"

definition colour_band :: "number option \<Rightarrow> number array2 \<Rightarrow> rgba array2" where
  "colour_band nd band =
     (let (h, w) = shape band;
          rgba0 = np_zeros h w;
          rgba1 = mask_assign rgba0 (is_background nd band) blue;
          rgba2 = mask_assign rgba1 (is_hyacinth nd band) green
      in rgba2)"

definition classify_raster_to_rgba ::
  "warp \<Rightarrow> files \<Rightarrow> string \<Rightarrow> error + (rgba array2 \<times> real list list)" where
  "classify_raster_to_rgba transform_bounds fs tif_path =
     (case raster_bounds_4326 transform_bounds fs tif_path of
        Inl e \<Rightarrow> Inl e
      | Inr bnds \<Rightarrow>
          (case rasterio_open fs tif_path of
             Inl e \<Rightarrow> Inl e
           | Inr src \<Rightarrow>
               (case read_band src 1 of
                  Inl e \<Rightarrow> Inl e
                | Inr band0 \<Rightarrow>
                    (let nd = nodata src;
                         band = elementwise astype_f32 band0
                     in Inr (colour_band nd band, bnds)))))"

subsection \<open>build_raster_map\<close>

text \<open>
  What \<^verbatim>\<open>build_raster_map\<close> puts on the folium map: the centre (computed in Python
  floats), the image overlay with its bounds, opacity and name, the bounds the view is
  fitted to, and the legend title.
\<close>

record folium_map =
  location :: "number \<times> number"
  zoom_start :: nat
  overlay_image :: "rgba array2"
  overlay_bounds :: "real list list"
  overlay_opacity :: real
  overlay_name :: string
  fitted_bounds :: "real list list"
  legend_title :: string

definition build_raster_map :: "warp \<Rightarrow> files \<Rightarrow> string \<Rightarrow> string \<Rightarrow> real \<Rightarrow> error + folium_map" where
  "build_raster_map transform_bounds fs tif_path map_title opacity =
     (case classify_raster_to_rgba transform_bounds fs tif_path of
        Inl e \<Rightarrow> Inl e
      | Inr (rgba, bnds) \<Rightarrow>
          (case bnds of
             [[south, west], [north, east]] \<Rightarrow>
               Inr \<lparr> location = (f64_div2 (f64_add (Fin south) (Fin north)),
                                  f64_div2 (f64_add (Fin west) (Fin east))),
                     zoom_start = 12,
                     overlay_image = rgba,
                     overlay_bounds = bnds,
                     overlay_opacity = opacity,
                     overlay_name = map_title,
                     fitted_bounds = bnds,
                     legend_title = map_title \<rparr>
           | _ \<Rightarrow> Inl ValueError))"

subsection \<open>A run of the script: what it displays and how it ends\<close>

text \<open>
  The streamlit calls of the script are recorded in the order they happen. A run ends by
  reaching the end of the script (\<open>Continue\<close> is the state of a run that has not ended),
  by \<^verbatim>\<open>st.stop()\<close>, or by an exception nothing in the script catches.
\<close>

datatype element =
    St_set_page_config string string
  | St_title string
  | St_error string
  | St_error_missing "label list"       \<comment> \<open>\<^verbatim>\<open>st.error(f"Missing required columns: {missing}")\<close>\<close>
  | St_write string
  | St_write_found "label list"         \<comment> \<open>\<^verbatim>\<open>st.write("Columns found:", list(df.columns))\<close>\<close>
  | St_subheader string
  | St_slider string real real real real
  | St_folium folium_map nat nat
  | Sidebar_title string
  | Sidebar_radio string "string list"
  | In_column nat element

datatype status = Continue | Stopped | Raised error

type_synonym run = "element list \<times> status"

definition then_run :: "run \<Rightarrow> run \<Rightarrow> run" where
  "then_run r1 r2 =
     (case snd r1 of Continue \<Rightarrow> (fst r1 @ fst r2, snd r2) | _ \<Rightarrow> r1)"

definition display :: "element list \<Rightarrow> run" where
  "display es = (es, Continue)"

subsection \<open>The optional imports\<close>

text \<open>
  The \<^verbatim>\<open>try\<close> block imports numpy, folium, streamlit_folium, rasterio and
  \<^verbatim>\<open>rasterio.warp.transform_bounds\<close> in this order and stops at the first that fails.
  \<^verbatim>\<open>HAS_OVERLAY\<close> is false when one failed; the name \<^verbatim>\<open>folium\<close> is bound when the
  first two succeeded.
\<close>

record libs =
  has_numpy :: bool
  has_folium :: bool
  has_streamlit_folium :: bool
  has_rasterio :: bool
  has_rasterio_warp :: bool

definition HAS_OVERLAY :: "libs \<Rightarrow> bool" where
  "HAS_OVERLAY l =
     (has_numpy l \<and> has_folium l \<and> has_streamlit_folium l \<and> has_rasterio l
      \<and> has_rasterio_warp l)"

definition folium_bound :: "libs \<Rightarrow> bool" where
  "folium_bound l = (has_numpy l \<and> has_folium l)"

subsection \<open>load_data and validate_columns\<close>

text \<open>
  A data frame: the column labels and, for each label in order, the cells of its column.
  The cell type and \<^verbatim>\<open>pd.to_numeric(_, errors="coerce")\<close> on one column belong to
  pandas and are parameters.
\<close>

record 'c dataframe =
  columns :: "label list"
  series :: "'c list list"

text \<open>
  The loop of \<^verbatim>\<open>load_data\<close> over the three numeric columns. When a label occurs more
  than once, \<^verbatim>\<open>df[c]\<close> is a DataFrame and \<^verbatim>\<open>pd.to_numeric\<close> raises.
\<close>

fun coerce_columns ::
  "('c list \<Rightarrow> 'c list) \<Rightarrow> label list \<Rightarrow> 'c dataframe \<Rightarrow> error + 'c dataframe" where
  "coerce_columns to_numeric [] df = Inr df"
| "coerce_columns to_numeric (c # cs) df =
     (if c \<in> set (columns df)
      then (if 1 < count_list (columns df) c then Inl TypeError
            else coerce_columns to_numeric cs
                   (df\<lparr>series := map2 (\<lambda>l s. if l = c then to_numeric s else s)
                                   (columns df) (series df)\<rparr>))
      else coerce_columns to_numeric cs df)"

text \<open>
  The first argument of \<^verbatim>\<open>load_data\<close> is what
  \<^verbatim>\<open>pd.read_csv("water_hyacinth_2025.csv", sep=";")\<close> returned or raised. The cache of
  \<^verbatim>\<open>st.cache_data\<close> replays that result within one process; one run is modelled.
\<close>

definition load_data ::
  "error + 'c dataframe \<Rightarrow> ('c list \<Rightarrow> 'c list) \<Rightarrow> error + 'c dataframe" where
  "load_data read_csv to_numeric =
     (case read_csv of
        Inl e \<Rightarrow> Inl e
      | Inr df \<Rightarrow>
          coerce_columns to_numeric
            [label_of ''Area_km2'', label_of ''Latitude'', label_of ''Longitude'']
            (df\<lparr>columns := map strip (columns df)\<rparr>))"

definition validate_columns :: "'c dataframe \<Rightarrow> label list \<Rightarrow> run" where
  "validate_columns df required =
     (let missing = filter (\<lambda>c. c \<notin> set (columns df)) required
      in if missing \<noteq> []
         then ([St_error_missing missing, St_write_found (columns df)], Stopped)
         else ([], Continue))"

definition required_columns :: "label list" where
  "required_columns =
     [label_of ''Season'', label_of ''Month'', label_of ''Area_km2'', label_of ''Latitude'',
      label_of ''Longitude'']"

subsection \<open>The Map View branch\<close>

definition en_dash :: string where
  "en_dash = [CHR 0xE2, CHR 0x80, CHR 0x93]"

definition overlay_help :: string where
  "overlay_help =
     ''GeoTIFF overlay requires additional libraries.'' @ [CHR 0x0A, CHR 0x0A] @
     ''Install with:'' @ [CHR 0x0A] @
     ''pip install folium streamlit-folium rasterio pillow numpy''"

definition map_view_title :: string where
  "map_view_title = ''Winter vs Summer Raster Comparison (Laing Dam, 2025)''"

definition raster_only_note :: string where
  "raster_only_note =
     ''These maps are raster-only (no point markers). Colors represent two classes: **blue** (water/other) and **green** (water hyacinth).''"

definition winter_tif :: string where
  "winter_tif = ''Winter_2025_Hyacinth_Map.tif''"

definition summer_tif :: string where
  "summer_tif = ''Summer_2025_Hyacinth_Map.tif''"

definition winter_title :: string where
  "winter_title = ''Winter 2025 '' @ en_dash @ '' Hyacinth Classes''"

definition summer_title :: string where
  "summer_title = ''Summer 2025 '' @ en_dash @ '' Hyacinth Classes''"

definition map_column :: "warp \<Rightarrow> files \<Rightarrow> real \<Rightarrow> nat \<Rightarrow> string \<Rightarrow> string \<Rightarrow> string \<Rightarrow> run" where
  "map_column transform_bounds fs opacity k heading tif_path map_title =
     then_run (display [In_column k (St_subheader heading)])
       (case build_raster_map transform_bounds fs tif_path map_title opacity of
          Inl e \<Rightarrow> ([], Raised e)
        | Inr m \<Rightarrow> display [In_column k (St_folium m 650 550)])"

definition map_view :: "bool \<Rightarrow> warp \<Rightarrow> files \<Rightarrow> real \<Rightarrow> run" where
  "map_view has_overlay transform_bounds fs opacity =
     then_run (display [St_title map_view_title])
       (if \<not> has_overlay then ([St_error overlay_help], Stopped)
        else
          then_run
            (display [St_write raster_only_note, St_slider ''Overlay opacity'' 0 1 0.85 0.05])
            (then_run
               (map_column transform_bounds fs opacity 1 ''Winter 2025'' winter_tif winter_title)
               (map_column transform_bounds fs opacity 2 ''Summer 2025'' summer_tif summer_title)))"

subsection \<open>The script from its first line\<close>

text \<open>
  In order: the page configuration; the function definitions, where the annotation
  \<^verbatim>\<open>folium.Map\<close> of \<^verbatim>\<open>add_legend\<close> is evaluated and raises when no import bound
  \<^verbatim>\<open>folium\<close>; the sidebar; the table load and its validation; the branch of the menu
  choice. The branches other than Map View are a parameter.
\<close>

datatype menu = Project_Overview | Seasonal_Data_Explorer | Map_View | Contact

definition page_title :: string where
  "page_title = ''Water Hyacinth Seasonal Monitoring '' @ en_dash @ '' Laing Dam (2025)''"

definition page_config :: run where
  "page_config = display [St_set_page_config page_title ''wide'']"

definition sidebar :: run where
  "sidebar =
     display [Sidebar_title ''Navigation'',
              Sidebar_radio ''Go to:''
                [''Project Overview'', ''Seasonal Data Explorer'', ''Map View'', ''Contact'']]"

definition script ::
  "libs \<Rightarrow> error + 'c dataframe \<Rightarrow> ('c list \<Rightarrow> 'c list) \<Rightarrow> menu \<Rightarrow> warp \<Rightarrow> files \<Rightarrow> real \<Rightarrow>
   (menu \<Rightarrow> 'c dataframe \<Rightarrow> run) \<Rightarrow> run" where
  "script l read_csv to_numeric choice transform_bounds fs opacity other_views =
     then_run page_config
       (if \<not> folium_bound l then ([], Raised NameError)
        else
          then_run sidebar
            (case load_data read_csv to_numeric of
               Inl e \<Rightarrow> ([], Raised e)
             | Inr data \<Rightarrow>
                 then_run (validate_columns data required_columns)
                   (case choice of
                      Map_View \<Rightarrow> map_view (HAS_OVERLAY l) transform_bounds fs opacity
                    | _ \<Rightarrow> other_views choice data)))"

subsection \<open>Concrete inputs\<close>

text \<open>
  The 2 x 2 raster of the specification's scenario: no-data -9999, CRS EPSG:4326,
  bounds west 10, south 20, east 11, north 21.
\<close>

definition scenario_raster :: dataset where
  "scenario_raster =
     \<lparr> bounds = \<lparr> b_left = 10, b_bottom = 20, b_right = 11, b_top = 21 \<rparr>,
       crs = Some \<lparr> crs_bool = True, crs_str = ''EPSG:4326'' \<rparr>,
       nodata = Some (Fin (- 9999)),
       bands = [[[Fin (- 9999), Fin 0], [Fin 5, Fin (- 3)]]] \<rparr>"

text \<open>The same raster with a positive no-data sentinel and another spelling of WGS84.\<close>

definition crs84_raster :: dataset where
  "crs84_raster =
     \<lparr> bounds = \<lparr> b_left = 10, b_bottom = 20, b_right = 11, b_top = 21 \<rparr>,
       crs = Some \<lparr> crs_bool = True, crs_str = ''OGC:CRS84'' \<rparr>,
       nodata = Some (Fin 255),
       bands = [[[Fin 255, Fin 0], [Fin 5, Fin (- 3)]]] \<rparr>"

text \<open>
  An int32 raster of one pixel, 16777217, with the sentinel 16777216, and a south-up
  raster (the bottom edge north of the top edge).
\<close>

definition int32_raster :: dataset where
  "int32_raster =
     \<lparr> bounds = \<lparr> b_left = 10, b_bottom = 20, b_right = 11, b_top = 21 \<rparr>,
       crs = Some \<lparr> crs_bool = True, crs_str = ''EPSG:4326'' \<rparr>,
       nodata = Some (Fin 16777216),
       bands = [[[Fin 16777217]]] \<rparr>"

definition south_up_raster :: dataset where
  "south_up_raster =
     \<lparr> bounds = \<lparr> b_left = 10, b_bottom = 21, b_right = 11, b_top = 20 \<rparr>,
       crs = Some \<lparr> crs_bool = True, crs_str = ''EPSG:4326'' \<rparr>,
       nodata = None,
       bands = [[[Fin 1]]] \<rparr>"

definition no_files :: files where
  "no_files = (\<lambda>_. None)"

definition winter_only :: files where
  "winter_only = (\<lambda>p. if p = winter_tif then Some scenario_raster else None)"

definition crs84_files :: files where
  "crs84_files = (\<lambda>p. if p = winter_tif then Some crs84_raster else None)"

definition int32_files :: files where
  "int32_files = (\<lambda>p. if p = winter_tif then Some int32_raster else None)"

definition south_up_files :: files where
  "south_up_files = (\<lambda>p. if p = winter_tif then Some south_up_raster else None)"

text \<open>Two stand-ins for the reprojection library: one that fails, one that halves.\<close>

definition failing_warp :: warp where
  "failing_warp = (\<lambda>c dst l b r t. Inl CRSError)"

definition halving_warp :: warp where
  "halving_warp = (\<lambda>c dst l b r t. Inr (l / 2, b / 2, r / 2, t / 2))"

text \<open>
  All libraries present; a table without the Latitude column whose first label is
  preceded by a no-break space.
\<close>

definition all_libs :: libs where
  "all_libs =
     \<lparr> has_numpy = True, has_folium = True, has_streamlit_folium = True,
       has_rasterio = True, has_rasterio_warp = True \<rparr>"

definition no_latitude :: "nat dataframe" where
  "no_latitude =
     \<lparr> columns = [160 # label_of ''Season'', label_of ''Month '', label_of ''Area_km2'',
                  label_of ''Longitude''],
       series = [[], [], [], []] \<rparr>"

section \<open>Properties\<close>

subsection \<open>Indexing the elementwise operations\<close>

lemma rectangular_row:
  "rectangular a \<Longrightarrow> i < length a \<Longrightarrow> length (a ! i) = snd (shape a)"
  by (simp add: rectangular_def list_all_length)

lemma length_elementwise [simp]: "length (elementwise f a) = length a"
  by (simp add: elementwise_def)

lemma length_elementwise_row [simp]:
  "i < length a \<Longrightarrow> length (elementwise f a ! i) = length (a ! i)"
  by (simp add: elementwise_def)

lemma elementwise_nth [simp]:
  "i < length a \<Longrightarrow> j < length (a ! i) \<Longrightarrow> elementwise f a ! i ! j = f (a ! i ! j)"
  by (simp add: elementwise_def)

lemma length_elementwise2 [simp]:
  "length (elementwise2 f a b) = min (length a) (length b)"
  by (simp add: elementwise2_def)

lemma length_elementwise2_row [simp]:
  "i < length a \<Longrightarrow> i < length b \<Longrightarrow>
   length (elementwise2 f a b ! i) = min (length (a ! i)) (length (b ! i))"
  by (simp add: elementwise2_def)

lemma elementwise2_nth [simp]:
  "i < length a \<Longrightarrow> i < length b \<Longrightarrow> j < length (a ! i) \<Longrightarrow> j < length (b ! i) \<Longrightarrow>
   elementwise2 f a b ! i ! j = f (a ! i ! j) (b ! i ! j)"
  by (simp add: elementwise2_def)

lemma shape_elementwise: "shape (elementwise f a) = shape a"
  by (cases a) (simp_all add: shape_def elementwise_def)

lemma rectangular_elementwise: "rectangular a \<Longrightarrow> rectangular (elementwise f a)"
  by (simp add: rectangular_def shape_elementwise list_all_length)

subsection \<open>Rounding\<close>

lemma pow2_pos: "0 < pow2 k"
  by (simp add: pow2_def)

lemma round_half_even_nonneg: "0 \<le> x \<Longrightarrow> 0 \<le> round_half_even x"
  by (simp add: round_half_even_def Let_def)

lemma round_binary_nonpos:
  assumes "x \<le> 0"
  shows "f32_le (round_binary p emin emax x) (Fin 0)"
proof (cases "x = 0")
  case True
  then show ?thesis by (simp add: round_binary_def)
next
  case False
  let ?ulp = "pow2 (max (ilog2 \<bar>x\<bar>) emin - (int p - 1))"
  have "0 \<le> \<bar>x\<bar> / ?ulp"
    using pow2_pos [of "max (ilog2 \<bar>x\<bar>) emin - (int p - 1)"] by simp
  then have "0 \<le> round_half_even (\<bar>x\<bar> / ?ulp)"
    by (rule round_half_even_nonneg)
  then have "0 \<le> real_of_int (round_half_even (\<bar>x\<bar> / ?ulp)) * ?ulp"
    using pow2_pos [of "max (ilog2 \<bar>x\<bar>) emin - (int p - 1)"] by simp
  then show ?thesis
    using False assms by (simp add: round_binary_def Let_def)
qed

lemma astype_f32_nonpos: "f32_le v (Fin 0) \<Longrightarrow> f32_le (astype_f32 v) (Fin 0)"
  by (cases v) (simp_all add: round_f32_def round_binary_nonpos)

lemma round_binary_not_NaN: "round_binary p emin emax x \<noteq> NaN"
  by (simp add: round_binary_def Let_def)

lemma astype_f32_NaN_iff: "(astype_f32 v = NaN) = (v = NaN)"
  by (cases v) (simp_all add: round_f32_def round_binary_not_NaN)

lemma astype_f32_zero: "astype_f32 (Fin 0) = Fin 0"
  by (simp add: round_f32_def round_binary_def)

lemma astype_f32_values:
  "astype_f32 (Fin (- 9999)) = Fin (- 9999)"
  "astype_f32 (Fin 5) = Fin 5"
  "astype_f32 (Fin (- 3)) = Fin (- 3)"
  "astype_f32 (Fin 255) = Fin 255"
  "astype_f32 (Fin 1) = Fin 1"
  "astype_f32 (Fin 16777216) = Fin 16777216"
  "astype_f32 (Fin 16777217) = Fin 16777216"
  by code_simp+

lemma f64_centres:
  "f64_div2 (f64_add (Fin 20) (Fin 21)) = Fin (41 / 2)"
  "f64_div2 (f64_add (Fin 10) (Fin 11)) = Fin (21 / 2)"
  by code_simp+

subsection \<open>The masks, pixel by pixel\<close>

lemma f32_eq_refl: "v \<noteq> NaN \<Longrightarrow> f32_eq v v"
  by (cases v) simp_all

lemma np_isnan_iff: "np_isnan v = (v = NaN)"
  by (cases v) simp_all

lemma f32_gt_zero_iff: "v \<noteq> NaN \<Longrightarrow> f32_gt v (Fin 0) = (\<not> f32_le v (Fin 0))"
  by (cases v) simp_all

lemma is_nodata_shape [simp]:
  "length (is_nodata nd band) = length band"
  "i < length band \<Longrightarrow> length (is_nodata nd band ! i) = length (band ! i)"
  by (simp_all add: is_nodata_def np_or_def np_equal_scalar_def split: option.splits)

lemma is_nodata_nth:
  "i < length band \<Longrightarrow> j < length (band ! i) \<Longrightarrow>
   is_nodata nd band ! i ! j =
     ((\<exists>s. nd = Some s \<and> f32_eq (band ! i ! j) (astype_f32 s)) \<or> band ! i ! j = NaN)"
  by (cases nd) (simp_all add: is_nodata_def np_or_def np_equal_scalar_def np_isnan_iff)

lemma is_background_shape [simp]:
  "length (is_background nd band) = length band"
  "i < length band \<Longrightarrow> length (is_background nd band ! i) = length (band ! i)"
  by (simp_all add: is_background_def np_or_def)

lemma is_background_nth:
  "i < length band \<Longrightarrow> j < length (band ! i) \<Longrightarrow>
   is_background nd band ! i ! j =
     (((\<exists>s. nd = Some s \<and> f32_eq (band ! i ! j) (astype_f32 s)) \<or> band ! i ! j = NaN)
      \<or> f32_le (band ! i ! j) (Fin 0))"
  by (simp add: is_background_def np_or_def is_nodata_nth)

lemma is_hyacinth_shape [simp]:
  "length (is_hyacinth nd band) = length band"
  "i < length band \<Longrightarrow> length (is_hyacinth nd band ! i) = length (band ! i)"
  by (simp_all add: is_hyacinth_def np_and_def np_invert_def)

lemma is_hyacinth_nth:
  "i < length band \<Longrightarrow> j < length (band ! i) \<Longrightarrow>
   is_hyacinth nd band ! i ! j =
     (\<not> ((\<exists>s. nd = Some s \<and> f32_eq (band ! i ! j) (astype_f32 s)) \<or> band ! i ! j = NaN)
      \<and> f32_gt (band ! i ! j) (Fin 0))"
  by (simp add: is_hyacinth_def np_and_def np_invert_def is_nodata_nth)

lemma masks_exclusive:
  assumes "i < length band" "j < length (band ! i)"
  shows "is_background nd band ! i ! j \<noteq> is_hyacinth nd band ! i ! j"
proof (cases "band ! i ! j = NaN")
  case True
  then show ?thesis using assms by (simp add: is_background_nth is_hyacinth_nth)
next
  case False
  then show ?thesis
    using assms f32_gt_zero_iff [OF False]
    by (auto simp add: is_background_nth is_hyacinth_nth)
qed

lemma shape_rectangular:
  assumes "rectangular band" "i < length band"
  shows "shape band = (length band, length (band ! i))"
proof -
  have "length (band ! i) = snd (shape band)"
    using assms by (rule rectangular_row)
  moreover have "fst (shape band) = length band"
    by (simp add: shape_def)
  ultimately show ?thesis by (simp add: prod_eq_iff)
qed

lemma colour_band_length: "length (colour_band nd band) = length band"
  by (simp add: colour_band_def shape_def mask_assign_def np_zeros_def)

lemma colour_band_row_length:
  assumes "rectangular band" "i < length band"
  shows "length (colour_band nd band ! i) = length (band ! i)"
  using assms
  by (simp add: colour_band_def shape_rectangular [OF assms] mask_assign_def np_zeros_def)

lemma colour_band_nth:
  assumes "rectangular band" "i < length band" "j < length (band ! i)"
  shows "colour_band nd band ! i ! j =
     (if is_hyacinth nd band ! i ! j then green
      else if is_background nd band ! i ! j then blue else (0, 0, 0, 0))"
  using assms
  by (simp add: colour_band_def shape_rectangular [OF assms(1,2)] mask_assign_def np_zeros_def)

lemma colours_distinct:
  "blue \<noteq> green" "blue \<noteq> (0, 0, 0, 0)" "green \<noteq> (0, 0, 0, 0)"
  by (simp_all add: blue_def green_def)

lemma classify_raster_to_rgba_image:
  assumes "fs tif_path = Some src" "read_band src 1 = Inr band"
    "classify_raster_to_rgba tb fs tif_path = Inr (img, bnds)"
  shows "img = colour_band (nodata src) (elementwise astype_f32 band)"
  using assms
  by (auto simp: classify_raster_to_rgba_def rasterio_open_def Let_def split: sum.splits)

lemma pixel_colour:
  assumes "rectangular band" "i < length band" "j < length (band ! i)"
  shows "colour_band nd (elementwise astype_f32 band) ! i ! j =
     (if is_hyacinth nd (elementwise astype_f32 band) ! i ! j then green else blue)"
proof -
  let ?b = "elementwise astype_f32 band"
  have r: "rectangular ?b" using assms(1) by (rule rectangular_elementwise)
  have i: "i < length ?b" and j: "j < length (?b ! i)" using assms(2,3) by simp_all
  show ?thesis
    using masks_exclusive [OF i j, of nd] by (auto simp add: colour_band_nth [OF r i j])
qed

lemma raster_bounds_4326_open:
  "fs tif_path = Some src \<Longrightarrow>
   raster_bounds_4326 tb fs tif_path =
     (case extent_4326 tb src of
        Inl e \<Rightarrow> Inl e
      | Inr (west, south, east, north) \<Rightarrow> Inr [[south, west], [north, east]])"
  by (simp add: raster_bounds_4326_def rasterio_open_def)

subsection \<open>Evaluation on the concrete inputs\<close>

lemma round_f32_values:
  "round_f32 (- 9999) = Fin (- 9999)"
  "round_f32 5 = Fin 5"
  "round_f32 (- 3) = Fin (- 3)"
  "round_f32 255 = Fin 255"
  "round_f32 1 = Fin 1"
  "round_f32 16777216 = Fin 16777216"
  "round_f32 16777217 = Fin 16777216"
  "round_f32 0 = Fin 0"
  using astype_f32_values astype_f32_zero by simp_all

lemma round_f64_centres:
  "round_f64 (41 / 2) = Fin (41 / 2)" "round_f64 41 = Fin 41"
  "round_f64 (21 / 2) = Fin (21 / 2)" "round_f64 21 = Fin 21"
  by code_simp+

lemmas classify_eval =
  classify_raster_to_rgba_def raster_bounds_4326_def rasterio_open_def extent_4326_def
  upper_def upper_char_def read_band_def colour_band_def shape_def np_zeros_def
  mask_assign_def is_background_def is_hyacinth_def is_nodata_def np_equal_scalar_def
  np_or_def np_and_def np_invert_def elementwise_def elementwise2_def Let_def
  round_f32_values

lemma classify_scenario:
  "classify_raster_to_rgba tb winter_only winter_tif =
     Inr ([[blue, blue], [green, blue]], [[20, 10], [21, 11]])"
  by (simp add: classify_eval winter_only_def scenario_raster_def)

lemma classify_crs84:
  "classify_raster_to_rgba halving_warp crs84_files winter_tif =
     Inr ([[blue, blue], [green, blue]], [[10, 5], [21 / 2, 11 / 2]])"
  by (simp add: classify_eval crs84_files_def crs84_raster_def halving_warp_def)

lemma classify_int32:
  "classify_raster_to_rgba tb int32_files winter_tif = Inr ([[blue]], [[20, 10], [21, 11]])"
  by (simp add: classify_eval int32_files_def int32_raster_def)

subsection \<open>Sequencing, loading and error propagation\<close>

lemma then_run_Continue: "then_run (es, Continue) r = (es @ fst r, snd r)"
  by (simp add: then_run_def)

lemma then_run_Stopped: "then_run (es, Stopped) r = (es, Stopped)"
  by (simp add: then_run_def)

lemma then_run_Raised: "then_run (es, Raised e) r = (es, Raised e)"
  by (simp add: then_run_def)

lemma coerce_columns_columns:
  "coerce_columns to_numeric cs df = Inr df' \<Longrightarrow> columns df' = columns df"
proof (induction cs arbitrary: df)
  case Nil
  then show ?case by simp
next
  case (Cons c cs)
  show ?case
  proof (cases "c \<in> set (columns df)")
    case True
    with Cons.prems have ok: "\<not> 1 < count_list (columns df) c"
      by (auto split: if_splits)
    let ?df = "df\<lparr>series := map2 (\<lambda>l s. if l = c then to_numeric s else s)
                                   (columns df) (series df)\<rparr>"
    from Cons.prems True ok have "coerce_columns to_numeric cs ?df = Inr df'"
      by simp
    then have "columns df' = columns ?df" by (rule Cons.IH)
    then show ?thesis by simp
  next
    case False
    with Cons.prems have "coerce_columns to_numeric cs df = Inr df'" by simp
    then show ?thesis by (rule Cons.IH)
  qed
qed

lemma load_data_columns:
  assumes "load_data (Inr raw) to_numeric = Inr df"
  shows "columns df = map strip (columns raw)"
proof -
  from assms have "coerce_columns to_numeric
      [label_of ''Area_km2'', label_of ''Latitude'', label_of ''Longitude'']
      (raw\<lparr>columns := map strip (columns raw)\<rparr>) = Inr df"
    by (simp add: load_data_def del: coerce_columns.simps)
  then have "columns df = columns (raw\<lparr>columns := map strip (columns raw)\<rparr>)"
    by (rule coerce_columns_columns)
  then show ?thesis by simp
qed

lemma validate_columns_pass:
  "(validate_columns df required = ([], Continue)) = (set required \<subseteq> set (columns df))"
  by (auto simp add: validate_columns_def Let_def filter_empty_conv)

lemma open_missing_propagates:
  assumes "fs tif_path = None"
  shows "raster_bounds_4326 tb fs tif_path = Inl RasterioIOError"
    and "classify_raster_to_rgba tb fs tif_path = Inl RasterioIOError"
    and "build_raster_map tb fs tif_path map_title opacity = Inl RasterioIOError"
  using assms
  by (simp_all add: build_raster_map_def classify_raster_to_rgba_def raster_bounds_4326_def
      rasterio_open_def)

lemma map_view_winter_error:
  assumes "build_raster_map tb fs winter_tif winter_title opacity = Inl e"
  shows "map_view True tb fs opacity =
     ([St_title map_view_title, St_write raster_only_note,
       St_slider ''Overlay opacity'' 0 1 0.85 0.05,
       In_column 1 (St_subheader ''Winter 2025'')],
      Raised e)"
  using assms
  by (simp add: map_view_def map_column_def display_def then_run_Continue then_run_Raised)

lemma map_view_summer_error:
  assumes "build_raster_map tb fs winter_tif winter_title opacity = Inr m"
    and "build_raster_map tb fs summer_tif summer_title opacity = Inl e"
  shows "map_view True tb fs opacity =
     ([St_title map_view_title, St_write raster_only_note,
       St_slider ''Overlay opacity'' 0 1 0.85 0.05,
       In_column 1 (St_subheader ''Winter 2025''), In_column 1 (St_folium m 650 550),
       In_column 2 (St_subheader ''Summer 2025'')],
      Raised e)"
  using assms
  by (simp add: map_view_def map_column_def display_def then_run_Continue then_run_Raised)

lemma map_view_both:
  assumes "build_raster_map tb fs winter_tif winter_title opacity = Inr m"
    and "build_raster_map tb fs summer_tif summer_title opacity = Inr m'"
  shows "map_view True tb fs opacity =
     ([St_title map_view_title, St_write raster_only_note,
       St_slider ''Overlay opacity'' 0 1 0.85 0.05,
       In_column 1 (St_subheader ''Winter 2025''), In_column 1 (St_folium m 650 550),
       In_column 2 (St_subheader ''Summer 2025''), In_column 2 (St_folium m' 650 550)],
      Continue)"
  using assms
  by (simp add: map_view_def map_column_def display_def then_run_Continue)

lemma build_winter_scenario:
  "build_raster_map tb winter_only winter_tif title opacity =
     Inr \<lparr> location = (Fin (41 / 2), Fin (21 / 2)), zoom_start = 12,
           overlay_image = [[blue, blue], [green, blue]],
           overlay_bounds = [[20, 10], [21, 11]], overlay_opacity = opacity,
           overlay_name = title, fitted_bounds = [[20, 10], [21, 11]],
           legend_title = title \<rparr>"
  by (simp add: build_raster_map_def classify_scenario round_f64_centres)

lemma script_without_folium:
  "\<not> folium_bound l \<Longrightarrow>
   script l read_csv to_numeric choice tb fs opacity other_views =
     ([St_set_page_config page_title ''wide''], Raised NameError)"
  by (simp add: script_def page_config_def display_def then_run_Continue)

lemma load_data_duplicate_label:
  "load_data
     (Inr \<lparr> columns = [label_of ''Latitude'', label_of '' Latitude''], series = [[], []] \<rparr>)
     to_numeric = Inl TypeError"
  by (simp add: load_data_def strip_def py_isspace_def label_of_def)

section \<open>The claims\<close>

text \<open>
  Claim C1, as the code has it. The band is converted to float32 before it is classified,
  and the sentinel is compared in float32. For every pixel \<open>v\<close> of band 1, with \<open>w\<close> its
  float32 conversion: the output pixel is \<open>(0, 120, 255, 180)\<close> exactly when \<open>w\<close> equals
  the converted sentinel, or is NaN, or \<open>w \<le> 0\<close>; it is \<open>(0, 200, 0, 220)\<close> exactly when
  none of these holds and \<open>w > 0\<close>. Of the file's own value this leaves one direction: a
  pixel equal to the sentinel, NaN or \<open>\<le> 0\<close> is blue, and a green pixel is not the
  sentinel, not NaN and \<open>> 0\<close>.
\<close>

theorem classify_pixel_colour:
  assumes "fs tif_path = Some src"
    and "read_band src 1 = Inr band"
    and "rectangular band"
    and "classify_raster_to_rgba tb fs tif_path = Inr (img, bnds)"
    and "i < length band" and "j < length (band ! i)"
  shows "(img ! i ! j = (0, 120, 255, 180) \<longleftrightarrow>
            ((\<exists>s. nodata src = Some s \<and> f32_eq (astype_f32 (band ! i ! j)) (astype_f32 s))
             \<or> astype_f32 (band ! i ! j) = NaN)
            \<or> f32_le (astype_f32 (band ! i ! j)) (Fin 0))
       \<and> (img ! i ! j = (0, 200, 0, 220) \<longleftrightarrow>
            \<not> ((\<exists>s. nodata src = Some s \<and> f32_eq (astype_f32 (band ! i ! j)) (astype_f32 s))
               \<or> astype_f32 (band ! i ! j) = NaN)
            \<and> f32_gt (astype_f32 (band ! i ! j)) (Fin 0))
       \<and> (nodata src = Some (band ! i ! j) \<or> band ! i ! j = NaN \<or> f32_le (band ! i ! j) (Fin 0)
            \<longrightarrow> img ! i ! j = (0, 120, 255, 180))
       \<and> (img ! i ! j = (0, 200, 0, 220)
            \<longrightarrow> nodata src \<noteq> Some (band ! i ! j) \<and> band ! i ! j \<noteq> NaN
                \<and> f32_gt (band ! i ! j) (Fin 0))"
proof -
  let ?v = "band ! i ! j"
  let ?w = "astype_f32 ?v"
  let ?nd = "(\<exists>s. nodata src = Some s \<and> f32_eq ?w (astype_f32 s)) \<or> ?w = NaN"
  let ?b = "elementwise astype_f32 band"
  have img: "img = colour_band (nodata src) ?b"
    using assms(1,2,4) by (rule classify_raster_to_rgba_image)
  have hy: "is_hyacinth (nodata src) ?b ! i ! j = (\<not> ?nd \<and> f32_gt ?w (Fin 0))"
    using assms(5,6) by (simp add: is_hyacinth_nth)
  have px: "img ! i ! j = (if \<not> ?nd \<and> f32_gt ?w (Fin 0) then green else blue)"
    using pixel_colour [OF assms(3,5,6), of "nodata src"] hy by (simp add: img)
  have b: "blue = (0, 120, 255, 180)" and g: "green = (0, 200, 0, 220)"
    by (simp_all add: blue_def green_def)
  have gt: "f32_gt ?w (Fin 0) = (\<not> f32_le ?w (Fin 0))" if "\<not> ?nd"
    using that by (simp add: f32_gt_zero_iff)
  have c1: "img ! i ! j = (0, 120, 255, 180) \<longleftrightarrow> ?nd \<or> f32_le ?w (Fin 0)"
    using px gt colours_distinct by (auto simp add: b g)
  have c2: "img ! i ! j = (0, 200, 0, 220) \<longleftrightarrow> \<not> ?nd \<and> f32_gt ?w (Fin 0)"
    using px colours_distinct by (auto simp add: b g)
  have raw_nd: "nodata src = Some ?v \<or> ?v = NaN \<Longrightarrow> ?nd"
    using f32_eq_refl [of ?w] by (auto simp add: astype_f32_NaN_iff)
  have raw_le: "f32_le ?v (Fin 0) \<Longrightarrow> f32_le ?w (Fin 0)"
    by (rule astype_f32_nonpos)
  have c3: "nodata src = Some ?v \<or> ?v = NaN \<or> f32_le ?v (Fin 0)
      \<longrightarrow> img ! i ! j = (0, 120, 255, 180)"
    using c1 raw_nd raw_le by blast
  have c4: "img ! i ! j = (0, 200, 0, 220)
      \<longrightarrow> nodata src \<noteq> Some ?v \<and> ?v \<noteq> NaN \<and> f32_gt ?v (Fin 0)"
  proof
    assume gr: "img ! i ! j = (0, 200, 0, 220)"
    then have nb: "img ! i ! j \<noteq> (0, 120, 255, 180)" by simp
    have n1: "nodata src \<noteq> Some ?v" and n2: "?v \<noteq> NaN" and n3: "\<not> f32_le ?v (Fin 0)"
      using c3 nb by blast+
    from n2 n3 have "f32_gt ?v (Fin 0)" by (simp add: f32_gt_zero_iff)
    with n1 n2 show "nodata src \<noteq> Some ?v \<and> ?v \<noteq> NaN \<and> f32_gt ?v (Fin 0)" by simp
  qed
  show ?thesis using c1 c2 c3 c4 by blast
qed

theorem classify_pixel_colour_witness:
  "classify_raster_to_rgba failing_warp winter_only winter_tif
     = Inr ([[blue, blue], [green, blue]], [[20, 10], [21, 11]])
   \<and> [[blue, blue], [green, blue]] ! 1 ! 0 = (0, 200, 0, 220)
   \<and> nodata scenario_raster \<noteq> Some (Fin 5) \<and> f32_gt (Fin 5) (Fin 0)"
proof -
  let ?band = "[[Fin (- 9999), Fin 0], [Fin 5, Fin (- 3)]]"
  have f: "winter_only winter_tif = Some scenario_raster"
    by (simp add: winter_only_def)
  have r: "read_band scenario_raster 1 = Inr ?band"
    by (simp add: read_band_def scenario_raster_def)
  have rect: "rectangular ?band"
    by (simp add: rectangular_def shape_def)
  have i: "(1::nat) < length ?band" and j: "(0::nat) < length (?band ! 1)" by simp_all
  show ?thesis
    using classify_pixel_colour [where fs = winter_only and tif_path = winter_tif
        and src = scenario_raster and band = ?band and tb = failing_warp and i = 1 and j = 0,
        OF f r rect classify_scenario i j]
      classify_scenario [of failing_warp]
    by (simp add: blue_def green_def scenario_raster_def)
qed

text \<open>
  Claim C1 as stated, on the values of the band read, fails: the int32 pixel 16777217
  with the sentinel 16777216 is not the sentinel, not NaN and positive, and is coloured
  blue, since both convert to the same float32.
\<close>

theorem classify_uncast_value_counterexample:
  "read_band int32_raster 1 = Inr [[Fin 16777217]]
   \<and> classify_raster_to_rgba failing_warp int32_files winter_tif
       = Inr ([[(0, 120, 255, 180)]], [[20, 10], [21, 11]])
   \<and> nodata int32_raster \<noteq> Some (Fin 16777217)
   \<and> Fin 16777217 \<noteq> NaN
   \<and> \<not> f32_le (Fin 16777217) (Fin 0)"
  using classify_int32 [of failing_warp]
  by (simp add: read_band_def int32_raster_def blue_def)

text \<open>
  Claim C2. The two masks are exhaustive and mutually exclusive: at every pixel of the
  output exactly one of them holds, the pixel carries one of the two class colours, never
  both, and no pixel keeps the zero it was initialised with.
\<close>

theorem classes_partition:
  assumes "fs tif_path = Some src"
    and "read_band src 1 = Inr band"
    and "rectangular band"
    and "classify_raster_to_rgba tb fs tif_path = Inr (img, bnds)"
    and "i < length img" and "j < length (img ! i)"
  shows "(is_background (nodata src) (elementwise astype_f32 band) ! i ! j
            \<noteq> is_hyacinth (nodata src) (elementwise astype_f32 band) ! i ! j)
       \<and> (img ! i ! j = (0, 120, 255, 180) \<or> img ! i ! j = (0, 200, 0, 220))
       \<and> \<not> (img ! i ! j = (0, 120, 255, 180) \<and> img ! i ! j = (0, 200, 0, 220))
       \<and> img ! i ! j \<noteq> (0, 0, 0, 0)"
proof -
  let ?b = "elementwise astype_f32 band"
  have img: "img = colour_band (nodata src) ?b"
    using assms(1,2,4) by (rule classify_raster_to_rgba_image)
  have r: "rectangular ?b" using assms(3) by (rule rectangular_elementwise)
  have i: "i < length band"
    using assms(5) by (simp add: img colour_band_length)
  then have i': "i < length ?b" by simp
  have j: "j < length (band ! i)"
    using assms(6) colour_band_row_length [OF r i', of "nodata src"] i by (simp add: img)
  then have j': "j < length (?b ! i)" using i by simp
  have excl: "is_background (nodata src) ?b ! i ! j \<noteq> is_hyacinth (nodata src) ?b ! i ! j"
    using i' j' by (rule masks_exclusive)
  have "img ! i ! j = blue \<or> img ! i ! j = green"
    using pixel_colour [OF assms(3) i j, of "nodata src"] by (simp add: img)
  then show ?thesis
    using excl by (auto simp add: blue_def green_def)
qed

theorem classes_partition_witness:
  "classify_raster_to_rgba failing_warp winter_only winter_tif
     = Inr ([[blue, blue], [green, blue]], [[20, 10], [21, 11]])
   \<and> is_background (Some (Fin (- 9999)))
        (elementwise astype_f32 [[Fin (- 9999), Fin 0], [Fin 5, Fin (- 3)]]) ! 0 ! 0
   \<and> \<not> is_hyacinth (Some (Fin (- 9999)))
        (elementwise astype_f32 [[Fin (- 9999), Fin 0], [Fin 5, Fin (- 3)]]) ! 0 ! 0
   \<and> [[blue, blue], [green, blue]] ! 0 ! 0 \<noteq> (0, 0, 0, 0)"
proof -
  let ?band = "[[Fin (- 9999), Fin 0], [Fin 5, Fin (- 3)]]"
  let ?img = "[[blue, blue], [green, blue]]"
  have f: "winter_only winter_tif = Some scenario_raster"
    by (simp add: winter_only_def)
  have r: "read_band scenario_raster 1 = Inr ?band"
    by (simp add: read_band_def scenario_raster_def)
  have rect: "rectangular ?band"
    by (simp add: rectangular_def shape_def)
  have i: "(0::nat) < length ?img" and j: "(0::nat) < length (?img ! 0)" by simp_all
  have bg: "is_background (Some (Fin (- 9999))) (elementwise astype_f32 ?band) ! 0 ! 0"
    by (simp add: classify_eval)
  show ?thesis
    using classes_partition [where fs = winter_only and tif_path = winter_tif
        and src = scenario_raster and band = ?band and tb = failing_warp and i = 0 and j = 0
        and img = ?img, OF f r rect classify_scenario i j]
      classify_scenario [of failing_warp] bg
    by (simp add: scenario_raster_def)
qed

text \<open>
  Claim C3. The scenario: the 2 x 2 raster with no-data -9999, values
  \<open>[[-9999, 0], [5, -3]]\<close>, CRS EPSG:4326 and bounds west 10, south 20, east 11, north 21
  is classified as background, background, hyacinth, background, with the blue colour at
  index (0,0), the green colour at index (1,0), and the bounds \<open>[[20, 10], [21, 11]]\<close>;
  the reprojection library plays no part.
\<close>

theorem scenario_2x2:
  "classify_raster_to_rgba tb winter_only winter_tif =
     Inr ([[(0, 120, 255, 180), (0, 120, 255, 180)],
           [(0, 200, 0, 220), (0, 120, 255, 180)]],
          [[20, 10], [21, 11]])"
  by (simp add: classify_eval winter_only_def scenario_raster_def blue_def green_def)

text \<open>
  Claim C5. Boundaries: a pixel that is exactly 0 is background and not hyacinth, and so
  is a pixel equal to the declared no-data sentinel, whatever the sentinel's magnitude
  (the witness has the positive sentinel 255).
\<close>

theorem boundary_pixels:
  assumes "fs tif_path = Some src"
    and "read_band src 1 = Inr band"
    and "rectangular band"
    and "classify_raster_to_rgba tb fs tif_path = Inr (img, bnds)"
    and "i < length band" and "j < length (band ! i)"
    and "band ! i ! j = Fin 0 \<or> nodata src = Some (band ! i ! j)"
  shows "img ! i ! j = (0, 120, 255, 180) \<and> img ! i ! j \<noteq> (0, 200, 0, 220)"
proof -
  let ?v = "band ! i ! j"
  let ?b = "elementwise astype_f32 band"
  have img: "img = colour_band (nodata src) ?b"
    using assms(1,2,4) by (rule classify_raster_to_rgba_image)
  have "(\<exists>s. nodata src = Some s \<and> f32_eq (astype_f32 ?v) (astype_f32 s))
      \<or> astype_f32 ?v = NaN \<or> f32_le (astype_f32 ?v) (Fin 0)"
    using assms(7)
  proof
    assume "?v = Fin 0"
    then show ?thesis by (simp add: round_f32_values)
  next
    assume "nodata src = Some ?v"
    then show ?thesis using f32_eq_refl [of "astype_f32 ?v"] by blast
  qed
  then have nh: "\<not> is_hyacinth (nodata src) ?b ! i ! j"
    using assms(5,6) f32_gt_zero_iff [of "astype_f32 ?v"]
    by (auto simp add: is_hyacinth_nth)
  have "img ! i ! j = blue"
    using pixel_colour [OF assms(3,5,6), of "nodata src"] nh by (simp add: img)
  then show ?thesis
    by (simp add: blue_def)
qed

theorem boundary_pixels_witness:
  "nodata crs84_raster = Some (Fin 255) \<and> (0::real) < 255
   \<and> classify_raster_to_rgba halving_warp crs84_files winter_tif
       = Inr ([[blue, blue], [green, blue]], [[10, 5], [21 / 2, 11 / 2]])
   \<and> [[blue, blue], [green, blue]] ! 0 ! 0 = (0, 120, 255, 180)"
proof -
  let ?band = "[[Fin 255, Fin 0], [Fin 5, Fin (- 3)]]"
  have f: "crs84_files winter_tif = Some crs84_raster"
    by (simp add: crs84_files_def)
  have r: "read_band crs84_raster 1 = Inr ?band"
    by (simp add: read_band_def crs84_raster_def)
  have rect: "rectangular ?band"
    by (simp add: rectangular_def shape_def)
  have i: "(0::nat) < length ?band" and j: "(0::nat) < length (?band ! 0)" by simp_all
  have s: "?band ! 0 ! 0 = Fin 0 \<or> nodata crs84_raster = Some (?band ! 0 ! 0)"
    by (simp add: crs84_raster_def)
  show ?thesis
    using boundary_pixels [where fs = crs84_files and src = crs84_raster
        and tif_path = winter_tif and tb = halving_warp
        and band = ?band and i = 0 and j = 0, OF f r rect classify_crs84 i j s] classify_crs84
    by (simp add: crs84_raster_def)
qed

text \<open>
  Claim C4, as the code has it. The test is on the text of the CRS: when the CRS of the
  raster is absent (\<open>None\<close>, or an object that is falsy), or its string form is
  EPSG:4326 in any letter case, \<open>raster_bounds_4326\<close> returns the native bounds
  unchanged, whatever the reprojection library would do.
\<close>

theorem native_bounds_unchanged:
  assumes "fs tif_path = Some src"
    and "crs src = None \<or>
         (\<exists>c. crs src = Some c \<and> (\<not> crs_bool c \<or> upper (crs_str c) = ''EPSG:4326''))"
  shows "raster_bounds_4326 tb fs tif_path =
           Inr [[b_bottom (bounds src), b_left (bounds src)],
                [b_top (bounds src), b_right (bounds src)]]"
  using assms
  by (auto simp add: raster_bounds_4326_open extent_4326_def Let_def)

theorem native_bounds_unchanged_witness:
  "crs scenario_raster = Some \<lparr> crs_bool = True, crs_str = ''EPSG:4326'' \<rparr>
   \<and> upper ''EPSG:4326'' = ''EPSG:4326''
   \<and> raster_bounds_4326 failing_warp winter_only winter_tif = Inr [[20, 10], [21, 11]]"
proof -
  have f: "winter_only winter_tif = Some scenario_raster"
    by (simp add: winter_only_def)
  have u: "upper ''EPSG:4326'' = ''EPSG:4326''"
    by (simp add: upper_def upper_char_def)
  have c: "crs scenario_raster = None \<or>
         (\<exists>c. crs scenario_raster = Some c \<and> (\<not> crs_bool c \<or> upper (crs_str c) = ''EPSG:4326''))"
    using u by (simp add: scenario_raster_def)
  show ?thesis
    using native_bounds_unchanged [where fs = winter_only and src = scenario_raster
        and tif_path = winter_tif and tb = failing_warp, OF f c] u
    by (simp add: scenario_raster_def)
qed

text \<open>
  Claim C4 as stated, for every raster whose CRS equals WGS84, fails: a raster whose CRS
  is WGS84 under the name OGC:CRS84 is handed to the reprojection library, and the result
  is what the library returns, an error or another box, not the native bounds.
\<close>

theorem wgs84_other_spelling_counterexample:
  "crs crs84_raster = Some \<lparr> crs_bool = True, crs_str = ''OGC:CRS84'' \<rparr>
   \<and> raster_bounds_4326 failing_warp crs84_files winter_tif = Inl CRSError
   \<and> raster_bounds_4326 halving_warp crs84_files winter_tif = Inr [[10, 5], [21 / 2, 11 / 2]]
   \<and> bounds crs84_raster = \<lparr> b_left = 10, b_bottom = 20, b_right = 11, b_top = 21 \<rparr>"
  by (simp add: raster_bounds_4326_def rasterio_open_def crs84_files_def extent_4326_def
      crs84_raster_def failing_warp_def halving_warp_def upper_def upper_char_def)

text \<open>
  Claim C9, as the code has it. The result is \<open>[[south, west], [north, east]]\<close> for the
  extent \<open>(west, south, east, north)\<close> the function obtained, and nothing is reordered:
  without reprojection these are the native bottom, left, top and right, so that
  south < north and west < east hold exactly when the native bounds have bottom < top
  and left < right; after reprojection they are what \<open>transform_bounds\<close> returned.
\<close>

theorem bounds_layout:
  assumes "fs tif_path = Some src"
    and "extent_4326 tb src = Inr (west, south, east, north)"
  shows "raster_bounds_4326 tb fs tif_path = Inr [[south, west], [north, east]]
       \<and> (crs src = None \<or>
            (\<exists>c. crs src = Some c \<and> (\<not> crs_bool c \<or> upper (crs_str c) = ''EPSG:4326''))
          \<longrightarrow> south = b_bottom (bounds src) \<and> west = b_left (bounds src)
              \<and> north = b_top (bounds src) \<and> east = b_right (bounds src)
              \<and> (south < north \<and> west < east \<longleftrightarrow>
                   b_bottom (bounds src) < b_top (bounds src)
                   \<and> b_left (bounds src) < b_right (bounds src)))
       \<and> (\<forall>c. crs src = Some c \<and> crs_bool c \<and> upper (crs_str c) \<noteq> ''EPSG:4326''
            \<longrightarrow> tb c ''EPSG:4326'' (b_left (bounds src)) (b_bottom (bounds src))
                   (b_right (bounds src)) (b_top (bounds src))
                 = Inr (west, south, east, north))"
proof -
  have rb: "raster_bounds_4326 tb fs tif_path = Inr [[south, west], [north, east]]"
    using assms by (simp add: raster_bounds_4326_open)
  have nat: "south = b_bottom (bounds src) \<and> west = b_left (bounds src)
      \<and> north = b_top (bounds src) \<and> east = b_right (bounds src)"
    if "crs src = None \<or>
        (\<exists>c. crs src = Some c \<and> (\<not> crs_bool c \<or> upper (crs_str c) = ''EPSG:4326''))"
    using that assms(2) by (auto simp add: extent_4326_def Let_def)
  have rep: "tb c ''EPSG:4326'' (b_left (bounds src)) (b_bottom (bounds src))
        (b_right (bounds src)) (b_top (bounds src)) = Inr (west, south, east, north)"
    if "crs src = Some c \<and> crs_bool c \<and> upper (crs_str c) \<noteq> ''EPSG:4326''" for c
    using that assms(2) by (simp add: extent_4326_def Let_def)
  show ?thesis
    using rb nat rep by auto
qed

theorem bounds_layout_witness:
  "extent_4326 failing_warp scenario_raster = Inr (10, 20, 11, 21)
   \<and> raster_bounds_4326 failing_warp winter_only winter_tif = Inr [[20, 10], [21, 11]]
   \<and> ((20::real) < 21 \<and> (10::real) < 11)"
proof -
  have f: "winter_only winter_tif = Some scenario_raster"
    by (simp add: winter_only_def)
  have e: "extent_4326 failing_warp scenario_raster = Inr (10, 20, 11, 21)"
    by (simp add: extent_4326_def scenario_raster_def upper_def upper_char_def)
  show ?thesis
    using bounds_layout [where fs = winter_only and src = scenario_raster
        and tif_path = winter_tif and tb = failing_warp, OF f e] e
    by (simp add: scenario_raster_def upper_def upper_char_def)
qed

text \<open>
  Claim C9 as stated fails on a south-up raster of positive area, whose bottom edge lies
  north of its top edge: the result has south = 21 and north = 20.
\<close>

theorem south_up_counterexample:
  "bounds south_up_raster = \<lparr> b_left = 10, b_bottom = 21, b_right = 11, b_top = 20 \<rparr>
   \<and> raster_bounds_4326 failing_warp south_up_files winter_tif = Inr [[21, 10], [20, 11]]
   \<and> \<not> ((21::real) < 20)"
  by (simp add: raster_bounds_4326_def rasterio_open_def south_up_files_def extent_4326_def
      south_up_raster_def upper_def upper_char_def)

text \<open>
  Claim C10. The decision to reproject is textual: the result is independent of the
  reprojection library exactly when the CRS is absent, falsy, or its string form
  upper-cases to EPSG:4326; any other CRS, for instance one whose string form is
  OGC:CRS84, is passed to \<open>transform_bounds\<close> with the native bounds.
\<close>

theorem reprojection_decision:
  assumes "fs tif_path = Some src"
  shows "((\<forall>t1 t2. raster_bounds_4326 t1 fs tif_path = raster_bounds_4326 t2 fs tif_path) \<longleftrightarrow>
           (crs src = None \<or>
            (\<exists>c. crs src = Some c \<and> (\<not> crs_bool c \<or> upper (crs_str c) = ''EPSG:4326''))))
       \<and> (\<forall>c. crs src = Some c \<and> crs_bool c \<and> upper (crs_str c) \<noteq> ''EPSG:4326'' \<longrightarrow>
             extent_4326 tb src =
               tb c ''EPSG:4326'' (b_left (bounds src)) (b_bottom (bounds src))
                 (b_right (bounds src)) (b_top (bounds src)))"
proof -
  let ?skip = "crs src = None \<or>
            (\<exists>c. crs src = Some c \<and> (\<not> crs_bool c \<or> upper (crs_str c) = ''EPSG:4326''))"
  have a: "?skip \<Longrightarrow> raster_bounds_4326 t1 fs tif_path = raster_bounds_4326 t2 fs tif_path"
    for t1 t2
    using assms by (auto simp add: raster_bounds_4326_open extent_4326_def Let_def)
  have b: "\<not> ?skip \<Longrightarrow>
      raster_bounds_4326 failing_warp fs tif_path \<noteq> raster_bounds_4326 halving_warp fs tif_path"
    using assms
    by (auto simp add: raster_bounds_4326_open extent_4326_def failing_warp_def halving_warp_def
        Let_def split: option.splits)
  have c: "extent_4326 tb src =
               tb c ''EPSG:4326'' (b_left (bounds src)) (b_bottom (bounds src))
                 (b_right (bounds src)) (b_top (bounds src))"
    if "crs src = Some c \<and> crs_bool c \<and> upper (crs_str c) \<noteq> ''EPSG:4326''" for c
    using that by (simp add: extent_4326_def Let_def)
  show ?thesis
    using a b c by blast
qed

theorem reprojection_decision_witness:
  "crs crs84_raster = Some \<lparr> crs_bool = True, crs_str = ''OGC:CRS84'' \<rparr>
   \<and> upper ''OGC:CRS84'' \<noteq> ''EPSG:4326''
   \<and> extent_4326 halving_warp crs84_raster = Inr (5, 10, 11 / 2, 21 / 2)
   \<and> raster_bounds_4326 failing_warp crs84_files winter_tif
       \<noteq> raster_bounds_4326 halving_warp crs84_files winter_tif"
proof -
  have f: "crs84_files winter_tif = Some crs84_raster"
    by (simp add: crs84_files_def)
  have u: "upper ''OGC:CRS84'' \<noteq> ''EPSG:4326''"
    by (simp add: upper_def upper_char_def)
  have n: "\<not> (crs crs84_raster = None \<or>
            (\<exists>c. crs crs84_raster = Some c \<and> (\<not> crs_bool c \<or> upper (crs_str c) = ''EPSG:4326'')))"
    using u by (simp add: crs84_raster_def)
  have h: "halving_warp \<lparr> crs_bool = True, crs_str = ''OGC:CRS84'' \<rparr> ''EPSG:4326''
             (b_left (bounds crs84_raster)) (b_bottom (bounds crs84_raster))
             (b_right (bounds crs84_raster)) (b_top (bounds crs84_raster))
           = Inr (5, 10, 11 / 2, 21 / 2)"
    by (simp add: halving_warp_def crs84_raster_def)
  have d: "raster_bounds_4326 failing_warp crs84_files winter_tif
       \<noteq> raster_bounds_4326 halving_warp crs84_files winter_tif"
    by (simp add: raster_bounds_4326_def rasterio_open_def crs84_files_def extent_4326_def
        crs84_raster_def failing_warp_def halving_warp_def upper_def upper_char_def)
  show ?thesis
    using reprojection_decision [where fs = crs84_files and src = crs84_raster
        and tif_path = winter_tif and tb = halving_warp, OF f] n u h d
    by (simp add: crs84_raster_def)
qed

text \<open>
  Claim C7. Table validation on the loaded table (labels trimmed by \<open>load_data\<close>):
  it passes, displaying nothing, exactly when every required name is among the trimmed
  labels, and the script goes on with the selected view; otherwise the run consists of
  the page configuration, the sidebar, the error with the missing names and the list of
  the labels found, and stops there, with nothing of the view displayed.
\<close>

theorem table_validation:
  assumes "load_data read_csv to_numeric = Inr df"
  shows "(\<forall>raw. read_csv = Inr raw \<longrightarrow> columns df = map strip (columns raw))
       \<and> (validate_columns df required = ([], Continue)
            \<longleftrightarrow> set required \<subseteq> set (columns df))
       \<and> (folium_bound l \<and> set required_columns \<subseteq> set (columns df) \<longrightarrow>
            script l read_csv to_numeric choice tb fs opacity other_views =
              then_run page_config
                (then_run sidebar
                   (case choice of
                      Map_View \<Rightarrow> map_view (HAS_OVERLAY l) tb fs opacity
                    | _ \<Rightarrow> other_views choice df)))
       \<and> (folium_bound l \<and> \<not> set required_columns \<subseteq> set (columns df) \<longrightarrow>
            [c \<leftarrow> required_columns. c \<notin> set (columns df)] \<noteq> []
            \<and> script l read_csv to_numeric choice tb fs opacity other_views =
                (fst page_config @ fst sidebar @
                 [St_error_missing [c \<leftarrow> required_columns. c \<notin> set (columns df)],
                  St_write_found (columns df)],
                 Stopped))"
proof -
  let ?missing = "[c \<leftarrow> required_columns. c \<notin> set (columns df)]"
  let ?view = "case choice of
                      Map_View \<Rightarrow> map_view (HAS_OVERLAY l) tb fs opacity
                    | _ \<Rightarrow> other_views choice df"
  have cols: "\<forall>raw. read_csv = Inr raw \<longrightarrow> columns df = map strip (columns raw)"
    using assms load_data_columns by blast
  have pc: "page_config = (fst page_config, Continue)"
    and sb: "sidebar = (fst sidebar, Continue)"
    by (simp_all add: page_config_def sidebar_def display_def)
  have sc: "script l read_csv to_numeric choice tb fs opacity other_views =
      then_run page_config
        (then_run sidebar (then_run (validate_columns df required_columns) ?view))"
    if "folium_bound l"
    using that assms by (simp add: script_def)
  have pass: "script l read_csv to_numeric choice tb fs opacity other_views =
      then_run page_config (then_run sidebar ?view)"
    if "folium_bound l \<and> set required_columns \<subseteq> set (columns df)"
  proof -
    have "validate_columns df required_columns = ([], Continue)"
      using that by (simp only: validate_columns_pass)
    then show ?thesis
      using that by (simp add: sc then_run_Continue)
  qed
  have fail: "?missing \<noteq> [] \<and> script l read_csv to_numeric choice tb fs opacity other_views =
      (fst page_config @ fst sidebar @ [St_error_missing ?missing, St_write_found (columns df)],
       Stopped)"
    if "folium_bound l \<and> \<not> set required_columns \<subseteq> set (columns df)"
  proof -
    have m: "?missing \<noteq> []"
      using that by (auto simp add: filter_empty_conv)
    then have v: "validate_columns df required_columns =
        ([St_error_missing ?missing, St_write_found (columns df)], Stopped)"
      by (simp add: validate_columns_def Let_def)
    have "script l read_csv to_numeric choice tb fs opacity other_views =
        then_run (fst page_config, Continue)
          (then_run (fst sidebar, Continue)
             ([St_error_missing ?missing, St_write_found (columns df)], Stopped))"
      using that pc sb by (simp add: sc v then_run_Stopped)
    then show ?thesis
      using m by (simp add: then_run_Continue)
  qed
  show ?thesis
    using cols pass fail validate_columns_pass [of df required] by blast
qed

theorem table_validation_witness:
  "load_data (Inr no_latitude) (\<lambda>s. s) =
     Inr \<lparr> columns = [label_of ''Season'', label_of ''Month'', label_of ''Area_km2'',
                      label_of ''Longitude''],
           series = [[], [], [], []] \<rparr>
   \<and> script all_libs (Inr no_latitude) (\<lambda>s. s) Project_Overview failing_warp no_files 1
       (\<lambda>m d. display [St_write ''view'']) =
     ([St_set_page_config page_title ''wide'',
       Sidebar_title ''Navigation'',
       Sidebar_radio ''Go to:''
         [''Project Overview'', ''Seasonal Data Explorer'', ''Map View'', ''Contact''],
       St_error_missing [label_of ''Latitude''],
       St_write_found [label_of ''Season'', label_of ''Month'', label_of ''Area_km2'',
                       label_of ''Longitude'']],
      Stopped)"
proof -
  let ?df = "\<lparr> columns = [label_of ''Season'', label_of ''Month'', label_of ''Area_km2'',
                      label_of ''Longitude''],
           series = [[], [], [], []] :: nat list list \<rparr>"
  have st: "strip (160 # label_of ''Season'') = label_of ''Season''"
    "strip (label_of ''Month '') = label_of ''Month''"
    "strip (label_of ''Area_km2'') = label_of ''Area_km2''"
    "strip (label_of ''Longitude'') = label_of ''Longitude''"
    by (simp_all add: strip_def py_isspace_def label_of_def)
  have ld: "load_data (Inr no_latitude) (\<lambda>s. s) = Inr ?df"
    by (simp add: load_data_def no_latitude_def st) (simp add: label_of_def)
  have fb: "folium_bound all_libs"
    by (simp add: folium_bound_def all_libs_def)
  have n: "\<not> set required_columns \<subseteq> set (columns ?df)"
    by (simp add: required_columns_def label_of_def)
  have m: "[c \<leftarrow> required_columns. c \<notin> set (columns ?df)] = [label_of ''Latitude'']"
    by (simp add: required_columns_def label_of_def)
  have s: "script all_libs (Inr no_latitude) (\<lambda>s. s) Project_Overview failing_warp no_files 1
       (\<lambda>m d. display [St_write ''view'']) =
     (fst page_config @ fst sidebar @
      [St_error_missing [c \<leftarrow> required_columns. c \<notin> set (columns ?df)],
       St_write_found (columns ?df)],
      Stopped)"
    using table_validation [where read_csv = "Inr no_latitude" and to_numeric = "\<lambda>s. s"
        and df = ?df and l = all_libs and choice = Project_Overview and tb = failing_warp
        and fs = no_files and opacity = 1
        and other_views = "\<lambda>m d. display [St_write ''view'']"
        and required = required_columns, OF ld] fb n
    by blast
  have "script all_libs (Inr no_latitude) (\<lambda>s. s) Project_Overview failing_warp no_files 1
       (\<lambda>m d. display [St_write ''view'']) =
     (fst page_config @ fst sidebar @
      [St_error_missing [label_of ''Latitude''], St_write_found (columns ?df)], Stopped)"
    by (simp only: s m)
  then show ?thesis
    using ld by (simp add: page_config_def sidebar_def display_def)
qed

text \<open>
  Claim C8, as the code has it. With \<open>HAS_OVERLAY\<close> false the Map View displays the
  installation message and stops. A file that cannot be opened makes
  \<open>raster_bounds_4326\<close>, \<open>classify_raster_to_rgba\<close> and \<open>build_raster_map\<close> return the
  error, and each of them returns the error of the one it calls. The Map View does not
  handle it either: when building the winter map fails, the run ends with that exception
  raised after the title, the note, the slider and the first subheader; when the winter
  map is built and the summer map fails, it ends with that exception raised after the
  winter map and the second subheader; in neither case is there an error message of the
  script's own. Only when both maps are built does the branch reach its end.
\<close>

theorem raster_errors_propagate:
  "map_view False tb fs opacity = ([St_title map_view_title, St_error overlay_help], Stopped)
   \<and> (fs tif_path = None \<longrightarrow>
         raster_bounds_4326 tb fs tif_path = Inl RasterioIOError
       \<and> classify_raster_to_rgba tb fs tif_path = Inl RasterioIOError
       \<and> build_raster_map tb fs tif_path map_title opacity = Inl RasterioIOError)
   \<and> (raster_bounds_4326 tb fs tif_path = Inl e \<longrightarrow>
         classify_raster_to_rgba tb fs tif_path = Inl e)
   \<and> (classify_raster_to_rgba tb fs tif_path = Inl e \<longrightarrow>
         build_raster_map tb fs tif_path map_title opacity = Inl e)
   \<and> (build_raster_map tb fs winter_tif winter_title opacity = Inl e \<longrightarrow>
         map_view True tb fs opacity =
           ([St_title map_view_title, St_write raster_only_note,
             St_slider ''Overlay opacity'' 0 1 0.85 0.05,
             In_column 1 (St_subheader ''Winter 2025'')],
            Raised e))
   \<and> (build_raster_map tb fs winter_tif winter_title opacity = Inr m
       \<and> build_raster_map tb fs summer_tif summer_title opacity = Inl e \<longrightarrow>
         map_view True tb fs opacity =
           ([St_title map_view_title, St_write raster_only_note,
             St_slider ''Overlay opacity'' 0 1 0.85 0.05,
             In_column 1 (St_subheader ''Winter 2025''), In_column 1 (St_folium m 650 550),
             In_column 2 (St_subheader ''Summer 2025'')],
            Raised e))
   \<and> (build_raster_map tb fs winter_tif winter_title opacity = Inr m
       \<and> build_raster_map tb fs summer_tif summer_title opacity = Inr m' \<longrightarrow>
         map_view True tb fs opacity =
           ([St_title map_view_title, St_write raster_only_note,
             St_slider ''Overlay opacity'' 0 1 0.85 0.05,
             In_column 1 (St_subheader ''Winter 2025''), In_column 1 (St_folium m 650 550),
             In_column 2 (St_subheader ''Summer 2025''), In_column 2 (St_folium m' 650 550)],
            Continue))"
proof -
  have a: "map_view False tb fs opacity =
      ([St_title map_view_title, St_error overlay_help], Stopped)"
    by (simp add: map_view_def display_def then_run_Continue)
  have b: "fs tif_path = None \<longrightarrow>
         raster_bounds_4326 tb fs tif_path = Inl RasterioIOError
       \<and> classify_raster_to_rgba tb fs tif_path = Inl RasterioIOError
       \<and> build_raster_map tb fs tif_path map_title opacity = Inl RasterioIOError"
    using open_missing_propagates by blast
  have c: "raster_bounds_4326 tb fs tif_path = Inl e \<longrightarrow>
         classify_raster_to_rgba tb fs tif_path = Inl e"
    by (simp add: classify_raster_to_rgba_def)
  have d: "classify_raster_to_rgba tb fs tif_path = Inl e \<longrightarrow>
         build_raster_map tb fs tif_path map_title opacity = Inl e"
    by (simp add: build_raster_map_def)
  show ?thesis
    using a b c d map_view_winter_error map_view_summer_error map_view_both
    by (intro conjI impI) (blast+)
qed

theorem raster_errors_propagate_witness:
  "winter_only summer_tif = None
   \<and> build_raster_map failing_warp winter_only summer_tif summer_title (17 / 20)
       = Inl RasterioIOError
   \<and> map_view True failing_warp winter_only (17 / 20) =
       ([St_title map_view_title, St_write raster_only_note,
         St_slider ''Overlay opacity'' 0 1 0.85 0.05,
         In_column 1 (St_subheader ''Winter 2025''),
         In_column 1
           (St_folium
              \<lparr> location = (Fin (41 / 2), Fin (21 / 2)), zoom_start = 12,
                overlay_image = [[blue, blue], [green, blue]],
                overlay_bounds = [[20, 10], [21, 11]], overlay_opacity = 17 / 20,
                overlay_name = winter_title, fitted_bounds = [[20, 10], [21, 11]],
                legend_title = winter_title \<rparr>
              650 550),
         In_column 2 (St_subheader ''Summer 2025'')],
        Raised RasterioIOError)"
proof -
  let ?m = "\<lparr> location = (Fin (41 / 2), Fin (21 / 2)), zoom_start = 12,
                overlay_image = [[blue, blue], [green, blue]],
                overlay_bounds = [[20, 10], [21, 11]], overlay_opacity = 17 / 20,
                overlay_name = winter_title, fitted_bounds = [[20, 10], [21, 11]],
                legend_title = winter_title \<rparr>"
  have n: "winter_only summer_tif = None"
    by (simp add: winter_only_def winter_tif_def summer_tif_def)
  have w: "build_raster_map failing_warp winter_only winter_tif winter_title (17 / 20) = Inr ?m"
    by (rule build_winter_scenario)
  note t = raster_errors_propagate [where fs = winter_only and tb = failing_warp
        and tif_path = summer_tif and map_title = summer_title and opacity = "17 / 20"
        and e = RasterioIOError and m = ?m]
  have s: "build_raster_map failing_warp winter_only summer_tif summer_title (17 / 20)
      = Inl RasterioIOError"
    using t n by blast
  have "map_view True failing_warp winter_only (17 / 20) =
       ([St_title map_view_title, St_write raster_only_note,
         St_slider ''Overlay opacity'' 0 1 0.85 0.05,
         In_column 1 (St_subheader ''Winter 2025''), In_column 1 (St_folium ?m 650 550),
         In_column 2 (St_subheader ''Summer 2025'')],
        Raised RasterioIOError)"
    using t w s by blast
  then show ?thesis
    using n s by blast
qed

text \<open>
  Claim C8 as stated fails where the rasters are missing and the libraries are present:
  the Map View run ends with the exception raised, not stopped, and displays no error
  message.
\<close>

theorem map_view_read_failure_counterexample:
  "map_view True failing_warp no_files 0.85 =
     ([St_title map_view_title, St_write raster_only_note,
       St_slider ''Overlay opacity'' 0 1 0.85 0.05,
       In_column 1 (St_subheader ''Winter 2025'')],
      Raised RasterioIOError)"
proof -
  have "no_files winter_tif = None"
    by (simp add: no_files_def)
  then have "build_raster_map failing_warp no_files winter_tif winter_title 0.85
      = Inl RasterioIOError"
    by (rule open_missing_propagates(3))
  then show ?thesis
    by (rule map_view_winter_error)
qed

end
